theory Spec2Isabelle
  imports Complex_Main "HOL-Library.AList" "HOL-Library.Char_ord" "HOL-Library.List_Lexorder"
begin

section \<open>Tables\<close>

text \<open>
  A pandas data frame is modelled column-major: the row labels (its index) and the
  named columns in their order. A cell is a number or a string. Floating-point
  numbers are idealised as reals, so there is neither rounding nor NaN.
\<close>

datatype cell = Num real | Str string

record frame =
  frame_index :: "int list"
  frame_columns :: "(string \<times> cell list) list"

text \<open>
  The exceptions the formatter and the libraries it calls can raise. The payload of
  a \<open>ValueError\<close> tells its origins apart.
\<close>

datatype value_error =
    ScalersNotSet
  | NoSamples
  | NotNumeric
  | FeatureMismatch
  | UnseenLabels
  | NotSingleColumn
  | Expected2D

datatype error = ValueError value_error | KeyError | TypeError | AttributeError

definition column_names :: "frame \<Rightarrow> string list" where
  "column_names df = map fst (frame_columns df)"

text \<open>\<open>df[col]\<close>: the column, or \<open>KeyError\<close>.\<close>

definition getitem :: "frame \<Rightarrow> string \<Rightarrow> error + cell list" where
  "getitem df col =
     (case map_of (frame_columns df) col of None \<Rightarrow> Inl KeyError | Some vs \<Rightarrow> Inr vs)"

text \<open>\<open>df[cols]\<close> for a list of names: the columns in the order asked for.\<close>

fun getitems :: "frame \<Rightarrow> string list \<Rightarrow> error + cell list list" where
  "getitems df [] = Inr []"
| "getitems df (c # cs) =
     (case getitem df c of
        Inl e \<Rightarrow> Inl e
      | Inr vs \<Rightarrow> (case getitems df cs of Inl e \<Rightarrow> Inl e | Inr vss \<Rightarrow> Inr (vs # vss)))"

text \<open>\<open>df[col] = vs\<close>: replaces the column, or appends a new one.\<close>

definition setitem :: "frame \<Rightarrow> string \<Rightarrow> cell list \<Rightarrow> frame" where
  "setitem df col vs = df\<lparr>frame_columns := AList.update col vs (frame_columns df)\<rparr>"

fun setitems :: "frame \<Rightarrow> string list \<Rightarrow> cell list list \<Rightarrow> frame" where
  "setitems df (c # cs) (vs # vss) = setitems (setitem df c vs) cs vss"
| "setitems df _ _ = df"

text \<open>Selection of the rows where a boolean mask holds, \<open>df.loc[mask]\<close>.\<close>

definition select :: "bool list \<Rightarrow> 'a list \<Rightarrow> 'a list" where
  "select msk xs = map snd (filter fst (zip msk xs))"

definition loc :: "frame \<Rightarrow> bool list \<Rightarrow> frame" where
  "loc df msk =
     \<lparr>frame_index = select msk (frame_index df),
      frame_columns = map (\<lambda>(c, vs). (c, select msk vs)) (frame_columns df)\<rparr>"

text \<open>
  Comparison of a column with a scalar. Comparing a string with a number raises
  \<open>TypeError\<close>.
\<close>

fun compare_scalar :: "(real \<Rightarrow> real \<Rightarrow> bool) \<Rightarrow> cell list \<Rightarrow> real \<Rightarrow> error + bool list" where
  "compare_scalar p [] b = Inr []"
| "compare_scalar p (Str s # vs) b = Inl TypeError"
| "compare_scalar p (Num x # vs) b =
     (case compare_scalar p vs b of Inl e \<Rightarrow> Inl e | Inr ms \<Rightarrow> Inr (p x b # ms))"

definition mask_and :: "bool list \<Rightarrow> bool list \<Rightarrow> bool list" where
  "mask_and ms ns = map (\<lambda>(m, n). m \<and> n) (zip ms ns)"

text \<open>\<open>Series.unique()\<close>: the distinct values in order of first appearance.\<close>

fun unique :: "'a list \<Rightarrow> 'a list" where
  "unique [] = []"
| "unique (x # xs) = x # unique (filter (\<lambda>y. y \<noteq> x) xs)"

text \<open>
  \<open>str\<close> of a cell. A string is its own \<open>str\<close>; how a number prints depends on the
  column's dtype, so the printing of numbers is a parameter.
\<close>

fun py_str :: "(real \<Rightarrow> string) \<Rightarrow> cell \<Rightarrow> string" where
  "py_str num_str (Num x) = num_str x"
| "py_str num_str (Str s) = s"

section \<open>Scalers of the preprocessing library\<close>

text \<open>
  \<open>StandardScaler\<close>: per feature, the mean and the population standard deviation
  of the fitted data; a standard deviation of zero is replaced by one. An array is
  given by its number of rows and its columns.
\<close>

record scaler =
  scaler_mean :: "real list"
  scaler_scale :: "real list"

definition mean :: "real list \<Rightarrow> real" where
  "mean xs = sum_list xs / real (length xs)"

definition variance :: "real list \<Rightarrow> real" where
  "variance xs = sum_list (map (\<lambda>x. (x - mean xs)\<^sup>2) xs) / real (length xs)"

definition handle_zeros_in_scale :: "real \<Rightarrow> real" where
  "handle_zeros_in_scale s = (if s = 0 then 1 else s)"

fun to_float :: "cell list \<Rightarrow> error + real list" where
  "to_float [] = Inr []"
| "to_float (Str s # vs) = Inl (ValueError NotNumeric)"
| "to_float (Num x # vs) =
     (case to_float vs of Inl e \<Rightarrow> Inl e | Inr xs \<Rightarrow> Inr (x # xs))"

fun check_array :: "nat \<Rightarrow> cell list list \<Rightarrow> error + real list list" where
  "check_array n [] = (if n = 0 then Inl (ValueError NoSamples) else Inr [])"
| "check_array n (vs # vss) =
     (case to_float vs of
        Inl e \<Rightarrow> Inl e
      | Inr xs \<Rightarrow> (case check_array n vss of Inl e \<Rightarrow> Inl e | Inr xss \<Rightarrow> Inr (xs # xss)))"

definition scaler_fit :: "nat \<Rightarrow> cell list list \<Rightarrow> error + scaler" where
  "scaler_fit n data =
     (case check_array n data of
        Inl e \<Rightarrow> Inl e
      | Inr cols \<Rightarrow>
          Inr \<lparr>scaler_mean = map mean cols,
               scaler_scale = map (\<lambda>c. handle_zeros_in_scale (sqrt (variance c))) cols\<rparr>)"

fun scale_columns :: "real list \<Rightarrow> real list \<Rightarrow> real list list \<Rightarrow> cell list list" where
  "scale_columns (m # ms) (s # ss) (c # cs) =
     map (\<lambda>x. Num ((x - m) / s)) c # scale_columns ms ss cs"
| "scale_columns _ _ _ = []"

definition scaler_transform :: "scaler \<Rightarrow> nat \<Rightarrow> cell list list \<Rightarrow> error + cell list list" where
  "scaler_transform sc n data =
     (case check_array n data of
        Inl e \<Rightarrow> Inl e
      | Inr cols \<Rightarrow>
          if length cols \<noteq> length (scaler_mean sc) then Inl (ValueError FeatureMismatch)
          else Inr (scale_columns (scaler_mean sc) (scaler_scale sc) cols))"

text \<open>
  \<open>inverse_transform\<close> validates its argument as \<open>transform\<close> does: the cells are
  converted to floats, the array must have two dimensions and at least one row.
  Then it multiplies by the scale and adds the mean. The argument here is an array
  of one column, given by its number of dimensions and the cells of that column: a
  column taken from a table, \<open>predictions[col]\<close>, has one dimension.
\<close>

definition scaler_inverse_transform :: "scaler \<Rightarrow> nat \<Rightarrow> cell list \<Rightarrow> error + cell list" where
  "scaler_inverse_transform sc ndim vs =
     (case to_float vs of
        Inl e \<Rightarrow> Inl e
      | Inr xs \<Rightarrow>
          if ndim \<noteq> 2 then Inl (ValueError Expected2D)
          else if xs = [] then Inl (ValueError NoSamples)
          else
            (case (scaler_scale sc, scaler_mean sc) of
               ([s], [m]) \<Rightarrow> Inr (map (\<lambda>x. Num (x * s + m)) xs)
             | _ \<Rightarrow> Inl (ValueError FeatureMismatch)))"

text \<open>
  \<open>LabelEncoder\<close>: the classes are the distinct labels, sorted; the code of a label
  is its position among the classes.
\<close>

record label_encoder =
  encoder_classes :: "string list"

definition encoder_fit :: "string list \<Rightarrow> label_encoder" where
  "encoder_fit ys = \<lparr>encoder_classes = sort (remdups ys)\<rparr>"

fun index_of :: "'a list \<Rightarrow> 'a \<Rightarrow> nat" where
  "index_of [] y = 0"
| "index_of (x # xs) y = (if x = y then 0 else Suc (index_of xs y))"

definition encoder_transform :: "label_encoder \<Rightarrow> string list \<Rightarrow> error + cell list" where
  "encoder_transform enc ys =
     (if ys = [] then Inr []
      else if \<exists>y \<in> set ys. y \<notin> set (encoder_classes enc) then Inl (ValueError UnseenLabels)
      else Inr (map (\<lambda>y. Num (real (index_of (encoder_classes enc) y))) ys))"

definition nunique :: "'a list \<Rightarrow> nat" where
  "nunique ys = length (remdups ys)"

section \<open>Column definitions\<close>

datatype DataTypes = REAL_VALUED | CATEGORICAL | DATE

datatype InputTypes = TARGET | OBSERVED_INPUT | KNOWN_INPUT | STATIC_INPUT | ID | TIME

type_synonym column_definition = "(string \<times> DataTypes \<times> InputTypes) list"

definition column_definition :: column_definition where
  "column_definition =
     [(''PRICE_ASK_0'', REAL_VALUED, KNOWN_INPUT),
      (''PRICE_BID_0'', REAL_VALUED, KNOWN_INPUT),
      (''VOLUME_ASK_0'', REAL_VALUED, KNOWN_INPUT),
      (''VOLUME_BID_0'', REAL_VALUED, KNOWN_INPUT),
      (''SPREAD'', REAL_VALUED, KNOWN_INPUT),
      (''midprice'', REAL_VALUED, KNOWN_INPUT),
      (''id'', REAL_VALUED, ID),
      (''time'', REAL_VALUED, TIME),
      (''rolling_volatility'', REAL_VALUED, TARGET),
      (''STOCK'', CATEGORICAL, STATIC_INPUT)]"

text \<open>
  Modelled from the spec: \<open>get_column_definition\<close> of the base formatter is not among
  the sources. The schema is the ordered sequence of column declarations, in
  insertion order.
\<close>

definition get_column_definition :: column_definition where
  "get_column_definition = column_definition"

text \<open>
  Modelled from the spec: \<open>get_single_col_by_input_type\<close> is not among the sources.
  It returns the name of the one column with the given role and raises an error
  when there is none or more than one.
\<close>

definition get_single_col_by_input_type :: "InputTypes \<Rightarrow> column_definition \<Rightarrow> error + string" where
  "get_single_col_by_input_type input_type cd =
     (case filter (\<lambda>(name, dt, it). it = input_type) cd of
        [(name, dt, it)] \<Rightarrow> Inr name
      | _ \<Rightarrow> Inl (ValueError NotSingleColumn))"

text \<open>
  Modelled from the spec: \<open>extract_cols_from_data_type\<close> is not among the sources.
  It returns, in schema order, the names of the columns of the given semantic type
  whose role is not in the excluded set.
\<close>

definition extract_cols_from_data_type ::
    "DataTypes \<Rightarrow> column_definition \<Rightarrow> InputTypes set \<Rightarrow> string list" where
  "extract_cols_from_data_type data_type cd excluded_input_types =
     map fst (filter (\<lambda>(name, dt, it). dt = data_type \<and> it \<notin> excluded_input_types) cd)"

section \<open>The volatility formatter\<close>

record fixed_params =
  total_time_steps :: int
  num_encoder_steps :: int
  num_epochs :: int
  early_stopping_patience :: int
  multiprocessing_workers :: int

definition get_fixed_params :: "int \<Rightarrow> fixed_params" where
  "get_fixed_params forecast_horizon =
     \<lparr>total_time_steps = 100 + forecast_horizon,
      num_encoder_steps = 100,
      num_epochs = 100,
      early_stopping_patience = 5,
      multiprocessing_workers = 5\<rparr>"

text \<open>
  The state of a formatter: the attributes that \<open>__init__\<close> creates, \<open>None\<close> until
  calibration sets them. The dictionary of label encoders keeps its insertion order.
\<close>

record formatter =
  identifiers :: "cell list option"
  real_scalers :: "scaler option"
  cat_scalers :: "(string \<times> label_encoder) list option"
  target_scaler :: "scaler option"
  num_classes_per_cat_input :: "nat list option"
  time_steps :: int
  encoder_steps :: int

definition init :: formatter where
  "init =
     \<lparr>identifiers = None,
      real_scalers = None,
      cat_scalers = None,
      target_scaler = None,
      num_classes_per_cat_input = None,
      time_steps = total_time_steps (get_fixed_params 20),
      encoder_steps = num_encoder_steps (get_fixed_params 20)\<rparr>"

subsection \<open>Calibration\<close>

text \<open>The loop of \<open>set_scalers\<close> over the categorical columns.\<close>

fun fit_categorical ::
    "(real \<Rightarrow> string) \<Rightarrow> frame \<Rightarrow> string list \<Rightarrow> (string \<times> label_encoder) list \<Rightarrow> nat list
      \<Rightarrow> error + ((string \<times> label_encoder) list \<times> nat list)" where
  "fit_categorical num_str df [] categorical_scalers num_classes =
     Inr (categorical_scalers, num_classes)"
| "fit_categorical num_str df (col # cols) categorical_scalers num_classes =
     (case getitem df col of
        Inl e \<Rightarrow> Inl e
      | Inr vs \<Rightarrow>
          (let srs = map (py_str num_str) vs
           in fit_categorical num_str df cols
                (AList.update col (encoder_fit srs) categorical_scalers)
                (num_classes @ [nunique srs])))"

text \<open>
  \<open>set_scalers\<close> assigns its attributes one after the other, so an exception leaves
  the formatter with those assigned before it: the result is the outcome together
  with the formatter afterwards.
\<close>

definition set_scalers ::
    "(real \<Rightarrow> string) \<Rightarrow> formatter \<Rightarrow> frame \<Rightarrow> (error + unit) \<times> formatter" where
  "set_scalers num_str self df =
     (let column_definitions = get_column_definition in
      case get_single_col_by_input_type ID column_definitions of
        Inl e \<Rightarrow> (Inl e, self)
      | Inr id_column \<Rightarrow>
      case get_single_col_by_input_type TARGET column_definitions of
        Inl e \<Rightarrow> (Inl e, self)
      | Inr target_column \<Rightarrow>
      case getitem df id_column of
        Inl e \<Rightarrow> (Inl e, self)
      | Inr ids \<Rightarrow>
      let self1 = self\<lparr>identifiers := Some (unique ids)\<rparr>;
          real_inputs = extract_cols_from_data_type REAL_VALUED column_definitions {ID, TIME}
      in
      case getitems df real_inputs of
        Inl e \<Rightarrow> (Inl e, self1)
      | Inr data \<Rightarrow>
      case scaler_fit (length (frame_index df)) data of
        Inl e \<Rightarrow> (Inl e, self1)
      | Inr rs \<Rightarrow>
      let self2 = self1\<lparr>real_scalers := Some rs\<rparr> in
      case getitems df [target_column] of
        Inl e \<Rightarrow> (Inl e, self2)
      | Inr target_data \<Rightarrow>
      case scaler_fit (length (frame_index df)) target_data of
        Inl e \<Rightarrow> (Inl e, self2)
      | Inr ts \<Rightarrow>
      let self3 = self2\<lparr>target_scaler := Some ts\<rparr>;
          categorical_inputs =
            extract_cols_from_data_type CATEGORICAL column_definitions {ID, TIME}
      in
      case fit_categorical num_str df categorical_inputs [] [] of
        Inl e \<Rightarrow> (Inl e, self3)
      | Inr (categorical_scalers, num_classes) \<Rightarrow>
          (Inr (),
           self3\<lparr>cat_scalers := Some categorical_scalers,
                 num_classes_per_cat_input := Some num_classes\<rparr>))"

subsection \<open>Transformation of inputs\<close>

text \<open>The loop of \<open>transform_inputs\<close> over the categorical columns.\<close>

fun transform_categorical ::
    "(real \<Rightarrow> string) \<Rightarrow> formatter \<Rightarrow> frame \<Rightarrow> string list \<Rightarrow> frame \<Rightarrow> error + frame" where
  "transform_categorical num_str self df [] output = Inr output"
| "transform_categorical num_str self df (col # cols) output =
     (case getitem df col of
        Inl e \<Rightarrow> Inl e
      | Inr vs \<Rightarrow>
      let string_df = map (py_str num_str) vs in
      case cat_scalers self of
        None \<Rightarrow> Inl TypeError
      | Some scalers \<Rightarrow>
      case map_of scalers col of
        None \<Rightarrow> Inl KeyError
      | Some enc \<Rightarrow>
      case encoder_transform enc string_df of
        Inl e \<Rightarrow> Inl e
      | Inr codes \<Rightarrow>
          transform_categorical num_str self df cols (setitem output col codes))"

definition transform_inputs :: "(real \<Rightarrow> string) \<Rightarrow> formatter \<Rightarrow> frame \<Rightarrow> error + frame" where
  "transform_inputs num_str self df =
     (let output = df in
      if real_scalers self = None \<and> cat_scalers self = None
      then Inl (ValueError ScalersNotSet)
      else
      let column_definitions = get_column_definition;
          real_inputs = extract_cols_from_data_type REAL_VALUED column_definitions {ID, TIME};
          categorical_inputs =
            extract_cols_from_data_type CATEGORICAL column_definitions {ID, TIME}
      in
      case real_scalers self of
        None \<Rightarrow> Inl AttributeError
      | Some rs \<Rightarrow>
      case getitems df real_inputs of
        Inl e \<Rightarrow> Inl e
      | Inr data \<Rightarrow>
      case scaler_transform rs (length (frame_index df)) data of
        Inl e \<Rightarrow> Inl e
      | Inr scaled \<Rightarrow>
          transform_categorical num_str self df categorical_inputs
            (setitems output real_inputs scaled))"

subsection \<open>Formatting of predictions\<close>

text \<open>The loop of \<open>format_predictions\<close> over the columns of the predictions.\<close>

fun inverse_columns :: "formatter \<Rightarrow> frame \<Rightarrow> string list \<Rightarrow> frame \<Rightarrow> error + frame" where
  "inverse_columns self predictions [] output = Inr output"
| "inverse_columns self predictions (col # cols) output =
     (if col \<notin> {''forecast_time'', ''identifier''}
      then
        case target_scaler self of
          None \<Rightarrow> Inl AttributeError
        | Some ts \<Rightarrow>
        case getitem predictions col of
          Inl e \<Rightarrow> Inl e
        | Inr vs \<Rightarrow>
        case scaler_inverse_transform ts 1 vs of
          Inl e \<Rightarrow> Inl e
        | Inr ws \<Rightarrow> inverse_columns self predictions cols (setitem output col ws)
      else inverse_columns self predictions cols output)"

definition format_predictions :: "formatter \<Rightarrow> frame \<Rightarrow> error + frame" where
  "format_predictions self predictions =
     (let output = predictions
      in inverse_columns self predictions (column_names predictions) output)"

subsection \<open>Splitting\<close>

text \<open>
  A generator expression yields its results on demand and ends at the first
  exception, which its consumer receives in place of a result.
\<close>

fun generator :: "('a \<Rightarrow> error + 'b) \<Rightarrow> 'a list \<Rightarrow> (error + 'b) list" where
  "generator g [] = []"
| "generator g (x # xs) =
     (case g x of Inl e \<Rightarrow> [Inl e] | Inr y \<Rightarrow> Inr y # generator g xs)"

definition split_data ::
    "(real \<Rightarrow> string) \<Rightarrow> formatter \<Rightarrow> frame \<Rightarrow> real \<Rightarrow> real
      \<Rightarrow> (error + (error + frame) list) \<times> formatter" where
  "split_data num_str self df valid_boundary test_boundary =
     (case getitem df ''DAY'' of
        Inl e \<Rightarrow> (Inl e, self)
      | Inr index \<Rightarrow>
      case compare_scalar (<) index valid_boundary of
        Inl e \<Rightarrow> (Inl e, self)
      | Inr below_valid \<Rightarrow>
      let train = loc df below_valid in
      case compare_scalar (\<ge>) index valid_boundary of
        Inl e \<Rightarrow> (Inl e, self)
      | Inr from_valid \<Rightarrow>
      case compare_scalar (<) index test_boundary of
        Inl e \<Rightarrow> (Inl e, self)
      | Inr below_test \<Rightarrow>
      let valid = loc df (mask_and from_valid below_test) in
      case compare_scalar (\<ge>) index test_boundary of
        Inl e \<Rightarrow> (Inl e, self)
      | Inr from_test \<Rightarrow>
      let test = loc df from_test in
      case set_scalers num_str self train of
        (Inl e, self') \<Rightarrow> (Inl e, self')
      | (Inr u, self') \<Rightarrow>
          (Inr (generator (transform_inputs num_str self') [train, valid, test]), self'))"

subsection \<open>Tables as objects\<close>

text \<open>
  Whether a call changes the table it is given depends on which object an assignment
  goes to. Here tables are objects in a store and a variable holds the address of
  its table: \<open>df.copy()\<close> puts a copy of the table at a new address, and an
  assignment to columns changes the table at the address it goes through. This is
  \<open>transform_inputs\<close> once more, with its reads from \<open>df\<close> and its writes to
  \<open>output\<close> on the store. The addresses of a store are the positions below its
  length; a variable never holds another one, and the statements are about those.
\<close>

type_synonym store = "frame list"

definition copy :: "store \<Rightarrow> nat \<Rightarrow> store \<times> nat" where
  "copy h a = (h @ [h ! a], length h)"

definition store_setitem :: "store \<Rightarrow> nat \<Rightarrow> string \<Rightarrow> cell list \<Rightarrow> store" where
  "store_setitem h a col vs = h[a := setitem (h ! a) col vs]"

definition store_setitems :: "store \<Rightarrow> nat \<Rightarrow> string list \<Rightarrow> cell list list \<Rightarrow> store" where
  "store_setitems h a cols vss = h[a := setitems (h ! a) cols vss]"

fun transform_categorical_store ::
    "(real \<Rightarrow> string) \<Rightarrow> formatter \<Rightarrow> store \<Rightarrow> nat \<Rightarrow> string list \<Rightarrow> nat
      \<Rightarrow> store \<times> (error + nat)" where
  "transform_categorical_store num_str self h df [] output = (h, Inr output)"
| "transform_categorical_store num_str self h df (col # cols) output =
     (case getitem (h ! df) col of
        Inl e \<Rightarrow> (h, Inl e)
      | Inr vs \<Rightarrow>
      let string_df = map (py_str num_str) vs in
      case cat_scalers self of
        None \<Rightarrow> (h, Inl TypeError)
      | Some scalers \<Rightarrow>
      case map_of scalers col of
        None \<Rightarrow> (h, Inl KeyError)
      | Some enc \<Rightarrow>
      case encoder_transform enc string_df of
        Inl e \<Rightarrow> (h, Inl e)
      | Inr codes \<Rightarrow>
          transform_categorical_store num_str self (store_setitem h output col codes)
            df cols output)"

definition transform_inputs_store ::
    "(real \<Rightarrow> string) \<Rightarrow> formatter \<Rightarrow> store \<Rightarrow> nat \<Rightarrow> store \<times> (error + nat)" where
  "transform_inputs_store num_str self h df =
     (let (h1, output) = copy h df in
      if real_scalers self = None \<and> cat_scalers self = None
      then (h1, Inl (ValueError ScalersNotSet))
      else
      let column_definitions = get_column_definition;
          real_inputs = extract_cols_from_data_type REAL_VALUED column_definitions {ID, TIME};
          categorical_inputs =
            extract_cols_from_data_type CATEGORICAL column_definitions {ID, TIME}
      in
      case real_scalers self of
        None \<Rightarrow> (h1, Inl AttributeError)
      | Some rs \<Rightarrow>
      case getitems (h1 ! df) real_inputs of
        Inl e \<Rightarrow> (h1, Inl e)
      | Inr data \<Rightarrow>
      case scaler_transform rs (length (frame_index (h1 ! df))) data of
        Inl e \<Rightarrow> (h1, Inl e)
      | Inr scaled \<Rightarrow>
          transform_categorical_store num_str self
            (store_setitems h1 output real_inputs scaled) df categorical_inputs output)"

section \<open>Auxiliary notions for the statements\<close>

text \<open>The two column lists that calibration and transformation work on.\<close>

definition real_inputs :: "string list" where
  "real_inputs = extract_cols_from_data_type REAL_VALUED get_column_definition {ID, TIME}"

definition categorical_inputs :: "string list" where
  "categorical_inputs = extract_cols_from_data_type CATEGORICAL get_column_definition {ID, TIME}"

text \<open>
  The distinct values of a list, each kept at the position of its first occurrence:
  the element at position \<open>i\<close> stays when it does not occur before \<open>i\<close>.
\<close>

definition first_occurrences :: "'a list \<Rightarrow> 'a list" where
  "first_occurrences xs =
     map (\<lambda>i. xs ! i) (filter (\<lambda>i. xs ! i \<notin> set (take i xs)) [0..<length xs])"

text \<open>The first four lines of \<open>split_data\<close>: the three partitions of the rows.\<close>

definition partitions :: "frame \<Rightarrow> real \<Rightarrow> real \<Rightarrow> error + (frame \<times> frame \<times> frame)" where
  "partitions df valid_boundary test_boundary =
     (case getitem df ''DAY'' of
        Inl e \<Rightarrow> Inl e
      | Inr index \<Rightarrow>
      case compare_scalar (<) index valid_boundary of
        Inl e \<Rightarrow> Inl e
      | Inr below_valid \<Rightarrow>
      case compare_scalar (\<ge>) index valid_boundary of
        Inl e \<Rightarrow> Inl e
      | Inr from_valid \<Rightarrow>
      case compare_scalar (<) index test_boundary of
        Inl e \<Rightarrow> Inl e
      | Inr below_test \<Rightarrow>
      case compare_scalar (\<ge>) index test_boundary of
        Inl e \<Rightarrow> Inl e
      | Inr from_test \<Rightarrow>
          Inr (loc df below_valid, loc df (mask_and from_valid below_test), loc df from_test))"

text \<open>The rows of a table at a set of positions, in their order.\<close>

definition rows_at :: "frame \<Rightarrow> nat set \<Rightarrow> frame" where
  "rows_at df A =
     \<lparr>frame_index = nths (frame_index df) A,
      frame_columns = map (\<lambda>(c, vs). (c, nths vs A)) (frame_columns df)\<rparr>"

text \<open>The names of the columns of a table, each with its number of rows.\<close>

definition column_lengths :: "frame \<Rightarrow> (string \<times> nat) list" where
  "column_lengths df = map (\<lambda>(c, vs). (c, length vs)) (frame_columns df)"

subsection \<open>A small table\<close>

definition example_num_str :: "real \<Rightarrow> string" where
  "example_num_str x = ''0''"

definition example_table :: frame where
  "example_table =
     \<lparr>frame_index = [0, 1, 2, 3, 4],
      frame_columns =
        [(''DAY'', [Num 5, Num 6, Num 7, Num 8, Num 9]),
         (''PRICE_ASK_0'', [Num 1, Num 3, Num 5, Num 7, Num 9]),
         (''PRICE_BID_0'', [Num 2, Num 6, Num 2, Num 6, Num 2]),
         (''VOLUME_ASK_0'', [Num 5, Num 5, Num 6, Num 5, Num 5]),
         (''VOLUME_BID_0'', [Num 1, Num 3, Num 1, Num 3, Num 1]),
         (''SPREAD'', [Num 1, Num 3, Num 2, Num 2, Num 2]),
         (''midprice'', [Num 1, Num 3, Num 2, Num 2, Num 2]),
         (''id'', [Num 9, Num 4, Num 9, Num 7, Num 4]),
         (''time'', [Num 0, Num 1, Num 2, Num 3, Num 4]),
         (''rolling_volatility'', [Num 1, Num 3, Num 5, Num 7, Num 9]),
         (''STOCK'', [Str ''B'', Str ''A'', Str ''B'', Str ''A'', Str ''B''])]\<rparr>"

definition example_train :: frame where
  "example_train =
     \<lparr>frame_index = [0, 1],
      frame_columns =
        [(''DAY'', [Num 5, Num 6]),
         (''PRICE_ASK_0'', [Num 1, Num 3]),
         (''PRICE_BID_0'', [Num 2, Num 6]),
         (''VOLUME_ASK_0'', [Num 5, Num 5]),
         (''VOLUME_BID_0'', [Num 1, Num 3]),
         (''SPREAD'', [Num 1, Num 3]),
         (''midprice'', [Num 1, Num 3]),
         (''id'', [Num 9, Num 4]),
         (''time'', [Num 0, Num 1]),
         (''rolling_volatility'', [Num 1, Num 3]),
         (''STOCK'', [Str ''B'', Str ''A''])]\<rparr>"

definition example_valid :: frame where
  "example_valid =
     \<lparr>frame_index = [2],
      frame_columns =
        [(''DAY'', [Num 7]),
         (''PRICE_ASK_0'', [Num 5]),
         (''PRICE_BID_0'', [Num 2]),
         (''VOLUME_ASK_0'', [Num 6]),
         (''VOLUME_BID_0'', [Num 1]),
         (''SPREAD'', [Num 2]),
         (''midprice'', [Num 2]),
         (''id'', [Num 9]),
         (''time'', [Num 2]),
         (''rolling_volatility'', [Num 5]),
         (''STOCK'', [Str ''B''])]\<rparr>"

definition example_test :: frame where
  "example_test =
     \<lparr>frame_index = [3, 4],
      frame_columns =
        [(''DAY'', [Num 8, Num 9]),
         (''PRICE_ASK_0'', [Num 7, Num 9]),
         (''PRICE_BID_0'', [Num 6, Num 2]),
         (''VOLUME_ASK_0'', [Num 5, Num 5]),
         (''VOLUME_BID_0'', [Num 3, Num 1]),
         (''SPREAD'', [Num 2, Num 2]),
         (''midprice'', [Num 2, Num 2]),
         (''id'', [Num 7, Num 4]),
         (''time'', [Num 3, Num 4]),
         (''rolling_volatility'', [Num 7, Num 9]),
         (''STOCK'', [Str ''A'', Str ''B''])]\<rparr>"

text \<open>The formatter that calibration on \<open>example_train\<close> gives.\<close>

definition example_formatter :: formatter where
  "example_formatter =
     \<lparr>identifiers = Some [Num 9, Num 4],
      real_scalers =
        Some \<lparr>scaler_mean = [2, 4, 5, 2, 2, 2, 2], scaler_scale = [1, 2, 1, 1, 1, 1, 1]\<rparr>,
      cat_scalers = Some [(''STOCK'', \<lparr>encoder_classes = [''A'', ''B'']\<rparr>)],
      target_scaler = Some \<lparr>scaler_mean = [2], scaler_scale = [1]\<rparr>,
      num_classes_per_cat_input = Some [2],
      time_steps = 120,
      encoder_steps = 100\<rparr>"

text \<open>The result of \<open>transform_inputs\<close> on \<open>example_train\<close> with that formatter.\<close>

definition example_train_transformed :: frame where
  "example_train_transformed =
     \<lparr>frame_index = [0, 1],
      frame_columns =
        [(''DAY'', [Num 5, Num 6]),
         (''PRICE_ASK_0'', [Num (- 1), Num 1]),
         (''PRICE_BID_0'', [Num (- 1), Num 1]),
         (''VOLUME_ASK_0'', [Num 0, Num 0]),
         (''VOLUME_BID_0'', [Num (- 1), Num 1]),
         (''SPREAD'', [Num (- 1), Num 1]),
         (''midprice'', [Num (- 1), Num 1]),
         (''id'', [Num 9, Num 4]),
         (''time'', [Num 0, Num 1]),
         (''rolling_volatility'', [Num (- 1), Num 1]),
         (''STOCK'', [Num 1, Num 0])]\<rparr>"

text \<open>A table of predictions that has only a reserved column.\<close>

definition example_reserved_only :: frame where
  "example_reserved_only =
     \<lparr>frame_index = [0, 1], frame_columns = [(''identifier'', [Num 9, Num 4])]\<rparr>"

text \<open>
  Predictions in the scale of the target scaler of \<open>example_formatter\<close>: with the
  reserved columns, and the scaled values of the target column of \<open>example_train\<close>
  alone.
\<close>

definition example_predictions :: frame where
  "example_predictions =
     \<lparr>frame_index = [0, 1],
      frame_columns =
        [(''forecast_time'', [Num 10, Num 11]),
         (''identifier'', [Num 9, Num 4]),
         (''t+0'', [Num (- 1), Num 1])]\<rparr>"

definition example_scaled_target :: frame where
  "example_scaled_target =
     \<lparr>frame_index = [0, 1], frame_columns = [(''t+0'', [Num (- 1), Num 1])]\<rparr>"



text \<open>The formatter that a second calibration, on \<open>example_test\<close>, gives.\<close>

definition example_formatter_test :: formatter where
  "example_formatter_test =
     \<lparr>identifiers = Some [Num 7, Num 4],
      real_scalers =
        Some \<lparr>scaler_mean = [8, 4, 5, 2, 2, 2, 8], scaler_scale = [1, 2, 1, 1, 1, 1, 1]\<rparr>,
      cat_scalers = Some [(''STOCK'', \<lparr>encoder_classes = [''A'', ''B'']\<rparr>)],
      target_scaler = Some \<lparr>scaler_mean = [8], scaler_scale = [1]\<rparr>,
      num_classes_per_cat_input = Some [2],
      time_steps = 120,
      encoder_steps = 100\<rparr>"

text \<open>The other two partitions after \<open>transform_inputs\<close> with \<open>example_formatter\<close>.\<close>

definition example_valid_transformed :: frame where
  "example_valid_transformed =
     \<lparr>frame_index = [2],
      frame_columns =
        [(''DAY'', [Num 7]),
         (''PRICE_ASK_0'', [Num 3]),
         (''PRICE_BID_0'', [Num (- 1)]),
         (''VOLUME_ASK_0'', [Num 1]),
         (''VOLUME_BID_0'', [Num (- 1)]),
         (''SPREAD'', [Num 0]),
         (''midprice'', [Num 0]),
         (''id'', [Num 9]),
         (''time'', [Num 2]),
         (''rolling_volatility'', [Num 3]),
         (''STOCK'', [Num 1])]\<rparr>"

definition example_test_transformed :: frame where
  "example_test_transformed =
     \<lparr>frame_index = [3, 4],
      frame_columns =
        [(''DAY'', [Num 8, Num 9]),
         (''PRICE_ASK_0'', [Num 5, Num 7]),
         (''PRICE_BID_0'', [Num 1, Num (- 1)]),
         (''VOLUME_ASK_0'', [Num 0, Num 0]),
         (''VOLUME_BID_0'', [Num 1, Num (- 1)]),
         (''SPREAD'', [Num 0, Num 0]),
         (''midprice'', [Num 0, Num 0]),
         (''id'', [Num 7, Num 4]),
         (''time'', [Num 3, Num 4]),
         (''rolling_volatility'', [Num 5, Num 7]),
         (''STOCK'', [Num 0, Num 1])]\<rparr>"

text \<open>The table without rows.\<close>

definition example_no_rows :: frame where
  "example_no_rows =
     \<lparr>frame_index = [],
      frame_columns =
        [(''DAY'', []),
         (''PRICE_ASK_0'', []),
         (''PRICE_BID_0'', []),
         (''VOLUME_ASK_0'', []),
         (''VOLUME_BID_0'', []),
         (''SPREAD'', []),
         (''midprice'', []),
         (''id'', []),
         (''time'', []),
         (''rolling_volatility'', []),
         (''STOCK'', [])]\<rparr>"


section \<open>The schema of the volatility data\<close>

lemma real_inputs_eq:
  "extract_cols_from_data_type REAL_VALUED get_column_definition {ID, TIME} =
     [''PRICE_ASK_0'', ''PRICE_BID_0'', ''VOLUME_ASK_0'', ''VOLUME_BID_0'', ''SPREAD'',
      ''midprice'', ''rolling_volatility'']"
  by (simp add: extract_cols_from_data_type_def get_column_definition_def column_definition_def)

lemma categorical_inputs_eq:
  "extract_cols_from_data_type CATEGORICAL get_column_definition {ID, TIME} = [''STOCK'']"
  by (simp add: extract_cols_from_data_type_def get_column_definition_def column_definition_def)

lemma id_column_eq: "get_single_col_by_input_type ID get_column_definition = Inr ''id''"
  by (simp add: get_single_col_by_input_type_def get_column_definition_def column_definition_def)

lemma target_column_eq:
  "get_single_col_by_input_type TARGET get_column_definition = Inr ''rolling_volatility''"
  by (simp add: get_single_col_by_input_type_def get_column_definition_def column_definition_def)

lemma init_eq:
  "init =
     \<lparr>identifiers = None, real_scalers = None, cat_scalers = None, target_scaler = None,
      num_classes_per_cat_input = None, time_steps = 120, encoder_steps = 100\<rparr>"
  by (simp add: init_def get_fixed_params_def)

section \<open>Evaluation on the small table\<close>

lemma example_partitions:
  "partitions example_table 7 8 = Inr (example_train, example_valid, example_test)"
  by (simp add: partitions_def example_table_def example_train_def example_valid_def
      example_test_def getitem_def loc_def select_def mask_and_def)

lemma example_calibration:
  "set_scalers example_num_str init example_train = (Inr (), example_formatter)"
  by (simp add: set_scalers_def id_column_eq target_column_eq real_inputs_eq categorical_inputs_eq
      example_train_def example_formatter_def init_eq getitem_def scaler_fit_def mean_def
      variance_def handle_zeros_in_scale_def encoder_fit_def nunique_def example_num_str_def)

lemma example_transform_train:
  "transform_inputs example_num_str example_formatter example_train =
     Inr example_train_transformed"
  by (simp add: transform_inputs_def real_inputs_eq categorical_inputs_eq
      example_train_def example_formatter_def example_train_transformed_def getitem_def
      scaler_transform_def encoder_transform_def setitem_def)

section \<open>Calibration\<close>

text \<open>What a calibration that returns has read and stored.\<close>

lemma set_scalers_success:
  assumes "set_scalers ns g df = (Inr (), f)"
  shows "\<exists>ids data rs tvs ts stock.
    getitem df ''id'' = Inr ids \<and>
    getitems df real_inputs = Inr data \<and>
    scaler_fit (length (frame_index df)) data = Inr rs \<and>
    getitem df ''rolling_volatility'' = Inr tvs \<and>
    scaler_fit (length (frame_index df)) [tvs] = Inr ts \<and>
    getitem df ''STOCK'' = Inr stock \<and>
    f = g\<lparr>identifiers := Some (unique ids),
           real_scalers := Some rs,
           target_scaler := Some ts,
           cat_scalers := Some [(''STOCK'', encoder_fit (map (py_str ns) stock))],
           num_classes_per_cat_input := Some [nunique (map (py_str ns) stock)]\<rparr>"
  using assms
  unfolding set_scalers_def real_inputs_def
  by (auto simp: id_column_eq target_column_eq categorical_inputs_eq Let_def
        split: sum.splits prod.splits)

subsection \<open>Identifiers\<close>

lemma unique_filter_first:
  "unique (filter (\<lambda>y. y \<notin> S) xs) =
     map (\<lambda>i. xs ! i) (filter (\<lambda>i. xs ! i \<notin> S \<union> set (take i xs)) [0..<length xs])"
proof (induction xs arbitrary: S)
  case Nil
  show ?case by simp
next
  case (Cons x xs)
  have u: "[0..<length (x # xs)] = 0 # map Suc [0..<length xs]"
    by (simp add: upt_conv_Cons map_Suc_upt del: upt_Suc)
  show ?case
  proof (cases "x \<in> S")
    case True
    have "(\<lambda>i. xs ! i \<notin> S \<union> set (take i xs)) =
          (\<lambda>i. xs ! i \<notin> S \<and> xs ! i \<noteq> x \<and> xs ! i \<notin> set (take i xs))"
      using True by auto
    with True Cons.IH[of S] show ?thesis
      unfolding u by (simp add: filter_map comp_def)
  next
    case False
    have f: "filter (\<lambda>y. y \<noteq> x) (filter (\<lambda>y. y \<notin> S) xs) = filter (\<lambda>y. y \<notin> insert x S) xs"
      by (induction xs) auto
    have lhs: "unique (filter (\<lambda>y. y \<notin> S) (x # xs)) =
               x # unique (filter (\<lambda>y. y \<notin> insert x S) xs)"
      using False by (simp add: f del: filter_filter)
    have rhs: "map (\<lambda>i. (x # xs) ! i)
                 (filter (\<lambda>i. (x # xs) ! i \<notin> S \<union> set (take i (x # xs))) [0..<length (x # xs)]) =
               x # map (\<lambda>i. xs ! i)
                 (filter (\<lambda>i. xs ! i \<notin> insert x S \<union> set (take i xs)) [0..<length xs])"
    proof -
      have p: "(\<lambda>i. xs ! i \<notin> S \<and> xs ! i \<noteq> x \<and> xs ! i \<notin> set (take i xs)) =
               (\<lambda>i. xs ! i \<noteq> x \<and> xs ! i \<notin> S \<and> xs ! i \<notin> set (take i xs))"
        by (rule ext) auto
      show ?thesis
        unfolding u using False by (simp add: filter_map comp_def p)
    qed
    show ?thesis
      by (simp only: lhs rhs Cons.IH)
  qed
qed

lemma unique_first_occurrences: "unique xs = first_occurrences xs"
  using unique_filter_first[of "{}" xs] by (simp add: first_occurrences_def)

lemma set_unique: "set (unique xs) = set xs"
  by (induction xs rule: unique.induct) auto

lemma distinct_unique: "distinct (unique xs)"
  by (induction xs rule: unique.induct) (auto simp: set_unique)

text \<open>
  C10. After \<open>set_scalers\<close> on a table, the identifiers of the formatter are the
  distinct values of the table's \<open>id\<close> column in the order of their first
  appearance: each distinct value once, at the position of its first occurrence.
\<close>

theorem identifiers_first_appearance:
  assumes "set_scalers ns g df = (Inr (), f)"
    and "getitem df ''id'' = Inr ids"
  shows "identifiers f = Some (first_occurrences ids) \<and>
         distinct (first_occurrences ids) \<and> set (first_occurrences ids) = set ids"
proof -
  from set_scalers_success[OF assms(1)] assms(2)
  have "identifiers f = Some (unique ids)"
    by auto
  then show ?thesis
    using distinct_unique[of ids] set_unique[of ids]
    by (simp add: unique_first_occurrences)
qed

theorem identifiers_first_appearance_witness:
  "set_scalers example_num_str init example_train = (Inr (), example_formatter) \<and>
   getitem example_train ''id'' = Inr [Num 9, Num 4] \<and>
   identifiers example_formatter = Some [Num 9, Num 4] \<and>
   first_occurrences [Num 9, Num 4, Num 9, Num 7, Num 4] = [Num 9, Num 4, Num 7]"
proof -
  have g: "getitem example_train ''id'' = Inr [Num 9, Num 4]"
    by (simp add: getitem_def example_train_def)
  have "first_occurrences [Num 9, Num 4] = [Num 9, Num 4]"
    by (simp add: unique_first_occurrences[symmetric])
  moreover have "first_occurrences [Num 9, Num 4, Num 9, Num 7, Num 4] = [Num 9, Num 4, Num 7]"
    by (simp add: unique_first_occurrences[symmetric])
  ultimately show ?thesis
    using identifiers_first_appearance[OF example_calibration g] example_calibration g
    by simp
qed

section \<open>Calls before calibration\<close>

lemma inverse_columns_unset:
  assumes "target_scaler self = None"
  shows "inverse_columns self p cols out =
     (if list_all (\<lambda>c. c \<in> {''forecast_time'', ''identifier''}) cols
      then Inr out else Inl AttributeError)"
  using assms by (induction cols arbitrary: out) auto

text \<open>
  C3, as the code has it. On a freshly constructed formatter \<open>transform_inputs\<close>
  fails on every table with the error that the scalers have not been set.
  \<open>format_predictions\<close> has no such check: it fails with an attribute error, from
  the target scaler that is still unset, when the predictions have a column other
  than the two reserved ones, and returns the table as it is when they have none.
\<close>

theorem calls_before_calibration:
  "transform_inputs ns init df = Inl (ValueError ScalersNotSet) \<and>
   format_predictions init p =
     (if list_all (\<lambda>c. c \<in> {''forecast_time'', ''identifier''}) (column_names p)
      then Inr p else Inl AttributeError)"
proof -
  have unset: "target_scaler init = None"
    by (simp add: init_def)
  have "transform_inputs ns init df = Inl (ValueError ScalersNotSet)"
    by (simp add: transform_inputs_def init_def)
  moreover have "format_predictions init p =
     (if list_all (\<lambda>c. c \<in> {''forecast_time'', ''identifier''}) (column_names p)
      then Inr p else Inl AttributeError)"
    by (simp only: format_predictions_def Let_def inverse_columns_unset[OF unset])
  ultimately show ?thesis
    by simp
qed

theorem calls_before_calibration_witness:
  "transform_inputs example_num_str init example_train = Inl (ValueError ScalersNotSet) \<and>
   format_predictions init example_train = Inl AttributeError"
  using calls_before_calibration[of example_num_str example_train example_train]
  by (simp add: column_names_def example_train_def)

theorem format_predictions_uncalibrated_counterexample:
  "format_predictions init example_reserved_only = Inr example_reserved_only"
  by (simp add: format_predictions_def column_names_def example_reserved_only_def init_def)

section \<open>Frames and scalers\<close>

lemma getitem_setitem:
  "getitem (setitem df c vs) c' = (if c' = c then Inr vs else getitem df c')"
  by (simp add: getitem_def setitem_def update_conv')

lemma frame_index_setitem: "frame_index (setitem df c vs) = frame_index df"
  by (simp add: setitem_def)

lemma column_names_setitem:
  "c \<in> set (column_names df) \<Longrightarrow> column_names (setitem df c vs) = column_names df"
  by (simp add: column_names_def setitem_def update_keys)

lemma getitem_Inr_iff: "getitem df c = Inr vs \<longleftrightarrow> map_of (frame_columns df) c = Some vs"
  by (simp add: getitem_def split: option.splits)

lemma getitem_in_names: "getitem df c = Inr vs \<Longrightarrow> c \<in> set (column_names df)"
  by (auto simp: getitem_Inr_iff column_names_def dest: map_of_SomeD intro: rev_image_eqI)

lemma getitem_distinct:
  "distinct (column_names df) \<Longrightarrow> (c, vs) \<in> set (frame_columns df) \<Longrightarrow> getitem df c = Inr vs"
  by (simp add: getitem_Inr_iff column_names_def)

lemma handle_zeros_in_scale_nonzero: "handle_zeros_in_scale s \<noteq> 0"
  by (simp add: handle_zeros_in_scale_def)


lemma to_float_Inr: "to_float vs = Inr xs \<Longrightarrow> vs = map Num xs"
  by (induction vs arbitrary: xs rule: to_float.induct) (auto split: sum.splits)



section \<open>Formatting of predictions\<close>

text \<open>
  C5. With \<open>example_formatter\<close>, calibrated on \<open>example_train\<close>, the target scaler
  has mean 2 and standard deviation 1, and \<open>example_scaled_target\<close> holds the scaled
  values \<open>(v - 2) / 1\<close> of the target values 1 and 3. \<open>format_predictions\<close> does
  not give these values back: it passes the column, which has one dimension, to
  \<open>inverse_transform\<close>, and that raises.
\<close>

theorem format_predictions_round_trip_raises:
  "set_scalers example_num_str init example_train = (Inr (), example_formatter) \<and>
   target_scaler example_formatter = Some \<lparr>scaler_mean = [2], scaler_scale = [1]\<rparr> \<and>
   getitem example_train ''rolling_volatility'' = Inr [Num 1, Num 3] \<and>
   format_predictions example_formatter example_scaled_target = Inl (ValueError Expected2D)"
  using example_calibration
  by (simp add: format_predictions_def column_names_def example_scaled_target_def
      example_formatter_def example_train_def getitem_def scaler_inverse_transform_def)

text \<open>
  C6. With the same formatter, \<open>format_predictions\<close> on predictions that have the
  two reserved columns and one column to rescale returns no table: the first column
  that is not reserved goes to \<open>inverse_transform\<close> with one dimension, and that
  raises.
\<close>

theorem format_predictions_rescale_raises:
  "format_predictions example_formatter example_predictions = Inl (ValueError Expected2D)"
  by (simp add: format_predictions_def column_names_def example_predictions_def
      example_formatter_def getitem_def scaler_inverse_transform_def)

section \<open>Transformation of inputs\<close>

lemma real_inputs_list:
  "real_inputs = [''PRICE_ASK_0'', ''PRICE_BID_0'', ''VOLUME_ASK_0'', ''VOLUME_BID_0'', ''SPREAD'',
      ''midprice'', ''rolling_volatility'']"
  by (simp add: real_inputs_def real_inputs_eq)

lemma categorical_inputs_list: "categorical_inputs = [''STOCK'']"
  by (simp add: categorical_inputs_def categorical_inputs_eq)

lemma getitems_Inr:
  "getitems df cs = Inr data \<Longrightarrow>
     length data = length cs \<and> (\<forall>i < length cs. getitem df (cs ! i) = Inr (data ! i))"
proof (induction cs arbitrary: data)
  case Nil
  then show ?case by simp
next
  case (Cons c cs)
  then obtain vs vss where "getitem df c = Inr vs" "getitems df cs = Inr vss" "data = vs # vss"
    by (auto split: sum.splits)
  with Cons.IH[of vss] show ?case
    by (auto simp: nth_Cons split: nat.splits)
qed

lemma check_array_Inr:
  "check_array n data = Inr cols \<Longrightarrow>
     n \<noteq> 0 \<and> length cols = length data \<and> (\<forall>i < length data. data ! i = map Num (cols ! i))"
proof (induction data arbitrary: cols)
  case Nil
  then show ?case by (simp split: if_splits)
next
  case (Cons vs vss)
  then obtain xs xss where "to_float vs = Inr xs" "check_array n vss = Inr xss" "cols = xs # xss"
    by (auto split: sum.splits)
  with Cons.IH[of xss] show ?case
    by (auto simp: nth_Cons dest: to_float_Inr split: nat.splits)
qed

lemma scale_columns_nth:
  "length ms = length cols \<Longrightarrow> length ss = length cols \<Longrightarrow>
     length (scale_columns ms ss cols) = length cols \<and>
     (\<forall>i < length cols.
        scale_columns ms ss cols ! i = map (\<lambda>x. Num ((x - ms ! i) / ss ! i)) (cols ! i))"
proof (induction ms ss cols rule: scale_columns.induct)
  case (1 m ms s ss c cs)
  then show ?case
    by (auto simp: nth_Cons split: nat.splits)
qed auto

lemma frame_index_setitems: "frame_index (setitems df cs vss) = frame_index df"
  by (induction df cs vss rule: setitems.induct) (simp_all add: frame_index_setitem)

lemma getitem_setitems_other:
  "c \<notin> set cs \<Longrightarrow> getitem (setitems df cs vss) c = getitem df c"
  by (induction df cs vss rule: setitems.induct) (auto simp: getitem_setitem)

lemma getitem_setitems_nth:
  "distinct cs \<Longrightarrow> length vss = length cs \<Longrightarrow> i < length cs \<Longrightarrow>
     getitem (setitems df cs vss) (cs ! i) = Inr (vss ! i)"
proof (induction df cs vss arbitrary: i rule: setitems.induct)
  case (1 df c cs vs vss)
  show ?case
  proof (cases i)
    case 0
    with 1 show ?thesis
      by (simp add: getitem_setitems_other getitem_setitem)
  next
    case (Suc j)
    with 1 show ?thesis by simp
  qed
qed auto

lemma column_names_setitems:
  "set cs \<subseteq> set (column_names df) \<Longrightarrow> column_names (setitems df cs vss) = column_names df"
  by (induction df cs vss rule: setitems.induct) (auto simp: column_names_setitem)

lemma scaler_fit_lengths:
  "scaler_fit n data = Inr rs \<Longrightarrow>
     length (scaler_mean rs) = length data \<and> length (scaler_scale rs) = length data"
  by (auto simp: scaler_fit_def split: sum.splits dest: check_array_Inr)

lemma calibrated_scalers:
  assumes "set_scalers ns g train = (Inr (), f)"
  shows "\<exists>rs labels. real_scalers f = Some rs \<and>
     length (scaler_mean rs) = length real_inputs \<and>
     length (scaler_scale rs) = length real_inputs \<and>
     getitem train ''STOCK'' = Inr labels \<and>
     cat_scalers f = Some [(''STOCK'', encoder_fit (map (py_str ns) labels))]"
proof -
  from set_scalers_success[OF assms] obtain data rs stock where
    "getitems train real_inputs = Inr data"
    "scaler_fit (length (frame_index train)) data = Inr rs"
    "getitem train ''STOCK'' = Inr stock"
    "real_scalers f = Some rs"
    "cat_scalers f = Some [(''STOCK'', encoder_fit (map (py_str ns) stock))]"
    by auto
  with scaler_fit_lengths[of "length (frame_index train)" data rs] getitems_Inr[of train real_inputs data]
  show ?thesis by auto
qed

text \<open>The steps of \<open>transform_inputs\<close> for a formatter whose scalers are set.\<close>

lemma transform_inputs_set:
  assumes "real_scalers f = Some rs" and "cat_scalers f = Some [(''STOCK'', enc)]"
  shows "transform_inputs ns f df =
     (case getitems df real_inputs of
        Inl e \<Rightarrow> Inl e
      | Inr data \<Rightarrow>
      case scaler_transform rs (length (frame_index df)) data of
        Inl e \<Rightarrow> Inl e
      | Inr scaled \<Rightarrow>
      case getitem df ''STOCK'' of
        Inl e \<Rightarrow> Inl e
      | Inr vs \<Rightarrow>
      case encoder_transform enc (map (py_str ns) vs) of
        Inl e \<Rightarrow> Inl e
      | Inr codes \<Rightarrow> Inr (setitem (setitems df real_inputs scaled) ''STOCK'' codes))"
  using assms
  by (simp add: transform_inputs_def real_inputs_def categorical_inputs_eq Let_def
      split: sum.splits)

lemma transform_inputs_Inr:
  assumes "real_scalers f = Some rs" and "cat_scalers f = Some [(''STOCK'', enc)]"
    and "length (scaler_mean rs) = length real_inputs"
    and "length (scaler_scale rs) = length real_inputs"
    and "transform_inputs ns f df = Inr out"
  shows "\<exists>data cols vs codes.
     getitems df real_inputs = Inr data \<and>
     check_array (length (frame_index df)) data = Inr cols \<and>
     getitem df ''STOCK'' = Inr vs \<and>
     encoder_transform enc (map (py_str ns) vs) = Inr codes \<and>
     out = setitem (setitems df real_inputs
             (scale_columns (scaler_mean rs) (scaler_scale rs) cols)) ''STOCK'' codes"
  using assms(5) unfolding transform_inputs_set[OF assms(1,2)]
  by (auto simp: scaler_transform_def split: sum.splits if_splits)

text \<open>
  C1, as the code has it. For a calibrated formatter, \<open>transform_inputs\<close> passes
  the identifier column, the timestamp column and every column that is neither a
  real-valued nor a categorical input through unchanged. The real-valued inputs are
  all real-valued columns but the identifier and the timestamp, so the target
  column \<open>rolling_volatility\<close> is among them: like the others it is replaced by its
  standardised values \<open>(value - mean) / std\<close>, with the statistics of the real
  scaler.
\<close>

theorem transform_inputs_columns:
  assumes "set_scalers ns g train = (Inr (), f)"
    and "transform_inputs ns f df = Inr out"
  shows "getitem out ''id'' = getitem df ''id'' \<and>
     getitem out ''time'' = getitem df ''time'' \<and>
     (\<forall>c. c \<notin> set real_inputs \<union> set categorical_inputs \<longrightarrow> getitem out c = getitem df c) \<and>
     (\<exists>rs. real_scalers f = Some rs \<and>
        (\<forall>i < length real_inputs. \<exists>xs.
           getitem df (real_inputs ! i) = Inr (map Num xs) \<and>
           getitem out (real_inputs ! i) =
             Inr (map (\<lambda>x. Num ((x - scaler_mean rs ! i) / scaler_scale rs ! i)) xs)) \<and>
        (\<exists>xs. getitem df ''rolling_volatility'' = Inr (map Num xs) \<and>
           getitem out ''rolling_volatility'' =
             Inr (map (\<lambda>x. Num ((x - scaler_mean rs ! 6) / scaler_scale rs ! 6)) xs)))"
proof -
  from calibrated_scalers[OF assms(1)] obtain rs labels where
    rs: "real_scalers f = Some rs" and
    lm: "length (scaler_mean rs) = length real_inputs" and
    ls: "length (scaler_scale rs) = length real_inputs" and
    cs: "cat_scalers f = Some [(''STOCK'', encoder_fit (map (py_str ns) labels))]"
    by blast
  from transform_inputs_Inr[OF rs cs lm ls assms(2)] obtain data cols vs codes where
    d: "getitems df real_inputs = Inr data" and
    c: "check_array (length (frame_index df)) data = Inr cols" and
    out: "out = setitem (setitems df real_inputs
             (scale_columns (scaler_mean rs) (scaler_scale rs) cols)) ''STOCK'' codes"
    by blast
  let ?scaled = "scale_columns (scaler_mean rs) (scaler_scale rs) cols"
  from getitems_Inr[OF d] check_array_Inr[OF c]
  have len: "length cols = length real_inputs"
    and get: "\<forall>i < length real_inputs. getitem df (real_inputs ! i) = Inr (map Num (cols ! i))"
    by auto
  from scale_columns_nth[of "scaler_mean rs" cols "scaler_scale rs"] lm ls len
  have sl: "length ?scaled = length real_inputs"
    and sn: "\<forall>i < length real_inputs.
        ?scaled ! i = map (\<lambda>x. Num ((x - scaler_mean rs ! i) / scaler_scale rs ! i)) (cols ! i)"
    by auto
  have dist: "distinct real_inputs"
    by (simp add: real_inputs_list)
  have other: "getitem out c = getitem df c"
    if "c \<notin> set real_inputs \<union> set categorical_inputs" for c
    using that by (simp add: out getitem_setitem getitem_setitems_other categorical_inputs_list)
  have scaled: "\<exists>xs. getitem df (real_inputs ! i) = Inr (map Num xs) \<and>
           getitem out (real_inputs ! i) =
             Inr (map (\<lambda>x. Num ((x - scaler_mean rs ! i) / scaler_scale rs ! i)) xs)"
    if i: "i < length real_inputs" for i
  proof -
    have "real_inputs ! i \<noteq> ''STOCK''"
      using i nth_mem[OF i] by (auto simp: real_inputs_list)
    then have "getitem out (real_inputs ! i) = Inr (?scaled ! i)"
      using getitem_setitems_nth[OF dist sl i, of df] by (simp add: out getitem_setitem)
    with sn get i show ?thesis
      by auto
  qed
  have six: "real_inputs ! 6 = ''rolling_volatility''" "6 < length real_inputs"
    by (simp_all add: real_inputs_list)
  from scaled[OF six(2)] have target:
    "\<exists>xs. getitem df ''rolling_volatility'' = Inr (map Num xs) \<and>
           getitem out ''rolling_volatility'' =
             Inr (map (\<lambda>x. Num ((x - scaler_mean rs ! 6) / scaler_scale rs ! 6)) xs)"
    by (simp add: six(1))
  have "getitem out ''id'' = getitem df ''id''" "getitem out ''time'' = getitem df ''time''"
    by (rule other, simp add: real_inputs_list categorical_inputs_list)+
  with other scaled target rs show ?thesis
    by blast
qed

theorem transform_inputs_columns_witness:
  "set_scalers example_num_str init example_train = (Inr (), example_formatter) \<and>
   transform_inputs example_num_str example_formatter example_train =
     Inr example_train_transformed \<and>
   getitem example_train_transformed ''id'' = getitem example_train ''id'' \<and>
   getitem example_train_transformed ''time'' = getitem example_train ''time''"
  using transform_inputs_columns[OF example_calibration example_transform_train]
    example_calibration example_transform_train
  by simp

theorem target_scaled_counterexample:
  "set_scalers example_num_str init example_train = (Inr (), example_formatter) \<and>
   transform_inputs example_num_str example_formatter example_train =
     Inr example_train_transformed \<and>
   getitem example_train ''rolling_volatility'' = Inr [Num 1, Num 3] \<and>
   getitem example_train_transformed ''rolling_volatility'' = Inr [Num (- 1), Num 1]"
  using example_calibration example_transform_train
  by (simp add: getitem_def example_train_def example_train_transformed_def)

subsection \<open>Categorical columns\<close>










section \<open>Calibration of the categorical columns\<close>

lemma example_calibration_test:
  "set_scalers example_num_str example_formatter example_test = (Inr (), example_formatter_test)"
  by (simp add: set_scalers_def id_column_eq target_column_eq real_inputs_eq categorical_inputs_eq
      example_test_def example_formatter_def example_formatter_test_def getitem_def scaler_fit_def
      mean_def variance_def handle_zeros_in_scale_def encoder_fit_def nunique_def
      example_num_str_def)

lemma encoder_fit_set: "encoder_fit ys = \<lparr>encoder_classes = sorted_list_of_set (set ys)\<rparr>"
  by (simp add: encoder_fit_def sorted_list_of_set_sort_remdups)

lemma nunique_card: "nunique ys = card (set ys)"
  by (simp add: nunique_def length_remdups_card_conv)

text \<open>
  C9. Calibration assigns the label codes as a function of the set of distinct
  stringified labels alone: whatever the formatters were before, two calibrations on
  tables whose \<open>STOCK\<close> columns have the same set of labels, in any order and
  multiplicity, store the same label encoder (the sorted list of that set) and the
  same number of classes (the size of that set).
\<close>

theorem categorical_calibration_deterministic:
  assumes "set_scalers ns g1 df1 = (Inr (), f1)"
    and "set_scalers ns g2 df2 = (Inr (), f2)"
    and "getitem df1 ''STOCK'' = Inr vs1"
    and "getitem df2 ''STOCK'' = Inr vs2"
    and "set (map (py_str ns) vs1) = set (map (py_str ns) vs2)"
  shows "cat_scalers f1 = cat_scalers f2 \<and>
     num_classes_per_cat_input f1 = num_classes_per_cat_input f2 \<and>
     cat_scalers f1 =
       Some [(''STOCK'',
              \<lparr>encoder_classes = sorted_list_of_set (set (map (py_str ns) vs1))\<rparr>)] \<and>
     num_classes_per_cat_input f1 = Some [card (set (map (py_str ns) vs1))]"
proof -
  from set_scalers_success[OF assms(1)] assms(3)
  have 1: "cat_scalers f1 = Some [(''STOCK'', encoder_fit (map (py_str ns) vs1))]"
    "num_classes_per_cat_input f1 = Some [nunique (map (py_str ns) vs1)]"
    by auto
  from set_scalers_success[OF assms(2)] assms(4)
  have 2: "cat_scalers f2 = Some [(''STOCK'', encoder_fit (map (py_str ns) vs2))]"
    "num_classes_per_cat_input f2 = Some [nunique (map (py_str ns) vs2)]"
    by auto
  from 1 2 assms(5) show ?thesis
    by (simp only: encoder_fit_set nunique_card)
qed

theorem categorical_calibration_deterministic_witness:
  "set_scalers example_num_str init example_train = (Inr (), example_formatter) \<and>
   set_scalers example_num_str example_formatter example_test = (Inr (), example_formatter_test) \<and>
   getitem example_train ''STOCK'' = Inr [Str ''B'', Str ''A''] \<and>
   getitem example_test ''STOCK'' = Inr [Str ''A'', Str ''B''] \<and>
   cat_scalers example_formatter = cat_scalers example_formatter_test \<and>
   num_classes_per_cat_input example_formatter = num_classes_per_cat_input example_formatter_test"
proof -
  have 1: "getitem example_train ''STOCK'' = Inr [Str ''B'', Str ''A'']"
    by (simp add: getitem_def example_train_def)
  have 2: "getitem example_test ''STOCK'' = Inr [Str ''A'', Str ''B'']"
    by (simp add: getitem_def example_test_def)
  have 3: "set (map (py_str example_num_str) [Str ''B'', Str ''A'']) =
           set (map (py_str example_num_str) [Str ''A'', Str ''B''])"
    by auto
  from categorical_calibration_deterministic[OF example_calibration example_calibration_test 1 2 3]
    example_calibration example_calibration_test 1 2
  show ?thesis
    by simp
qed

section \<open>Splitting\<close>

lemma example_transform_valid:
  "transform_inputs example_num_str example_formatter example_valid =
     Inr example_valid_transformed"
  by (simp add: transform_inputs_def real_inputs_eq categorical_inputs_eq
      example_valid_def example_formatter_def example_valid_transformed_def getitem_def
      scaler_transform_def encoder_transform_def setitem_def)

lemma example_transform_test:
  "transform_inputs example_num_str example_formatter example_test =
     Inr example_test_transformed"
  by (simp add: transform_inputs_def real_inputs_eq categorical_inputs_eq
      example_test_def example_formatter_def example_test_transformed_def getitem_def
      scaler_transform_def encoder_transform_def setitem_def)

lemma compare_scalar_map_Num: "compare_scalar p (map Num ds) b = Inr (map (\<lambda>d. p d b) ds)"
  by (induction ds) auto

lemma mask_and_map: "mask_and (map P ds) (map Q ds) = map (\<lambda>d. P d \<and> Q d) ds"
  by (induction ds) (auto simp: mask_and_def)

lemma partitions_numeric:
  assumes "getitem df ''DAY'' = Inr (map Num ds)"
  shows "partitions df valid_boundary test_boundary =
     Inr (loc df (map (\<lambda>d. d < valid_boundary) ds),
          loc df (map (\<lambda>d. valid_boundary \<le> d \<and> d < test_boundary) ds),
          loc df (map (\<lambda>d. test_boundary \<le> d) ds))"
  using assms by (simp add: partitions_def compare_scalar_map_Num mask_and_map)

lemma split_data_partitions:
  "split_data ns g df valid_boundary test_boundary =
     (case partitions df valid_boundary test_boundary of
        Inl e \<Rightarrow> (Inl e, g)
      | Inr (train, valid, test) \<Rightarrow>
          (case set_scalers ns g train of
             (Inl e, g') \<Rightarrow> (Inl e, g')
           | (Inr u, g') \<Rightarrow>
               (Inr (generator (transform_inputs ns g') [train, valid, test]), g')))"
  by (simp add: split_data_def partitions_def Let_def split: sum.splits)

lemma select_nths: "select m xs = nths xs {i. i < length m \<and> m ! i}"
proof (induction m arbitrary: xs)
  case Nil
  show ?case by (simp add: select_def)
next
  case (Cons b m)
  show ?case
  proof (cases xs)
    case Nil
    then show ?thesis by (simp add: select_def)
  next
    case (Cons x xs')
    have "{j. Suc j \<in> {i. i < length (b # m) \<and> (b # m) ! i}} = {i. i < length m \<and> m ! i}"
      by auto
    moreover have "select (b # m) (x # xs') = (if b then [x] else []) @ select m xs'"
      by (simp add: select_def)
    ultimately show ?thesis
      using Cons.IH[of xs'] Cons by (simp add: nths_Cons)
  qed
qed

lemma loc_rows_at: "loc df m = rows_at df {i. i < length m \<and> m ! i}"
  by (simp add: loc_def rows_at_def select_nths)

lemma loc_map_rows_at: "loc df (map P ds) = rows_at df {i. i < length ds \<and> P (ds ! i)}"
proof -
  have "{i. i < length (map P ds) \<and> map P ds ! i} = {i. i < length ds \<and> P (ds ! i)}"
    by auto
  then show ?thesis
    by (simp add: loc_rows_at)
qed

lemma generator_three:
  "generator t [a, b, c] =
     (if isl (t a) then [t a] else if isl (t b) then [t a, t b] else [t a, t b, t c])"
  by (auto split: sum.splits)

lemma example_split:
  "split_data example_num_str init example_table 7 8 =
     (Inr [Inr example_train_transformed, Inr example_valid_transformed,
           Inr example_test_transformed],
      example_formatter)"
  by (simp add: split_data_partitions example_partitions example_calibration
      example_transform_train example_transform_valid example_transform_test)

text \<open>
  C4, as the code has it. Let the \<open>DAY\<close> column hold numbers and let
  \<open>valid_boundary \<le> test_boundary\<close>. Then every row position of the table is in
  exactly one of three sets: day below \<open>valid_boundary\<close>, day from
  \<open>valid_boundary\<close> and below \<open>test_boundary\<close>, day from \<open>test_boundary\<close>; and
  train, valid and test are the rows of the table at these positions.
  \<open>split_data\<close> calibrates on train and raises what the calibration raises;
  otherwise it gives the results of \<open>transform_inputs\<close> on train, valid and test,
  in this order, up to and including the first that is an exception.
\<close>

theorem split_data_partitions_rows:
  assumes "valid_boundary \<le> test_boundary"
    and "getitem df ''DAY'' = Inr (map Num ds)"
  shows "\<exists>A B C train valid test.
     A = {i. i < length ds \<and> ds ! i < valid_boundary} \<and>
     B = {i. i < length ds \<and> valid_boundary \<le> ds ! i \<and> ds ! i < test_boundary} \<and>
     C = {i. i < length ds \<and> test_boundary \<le> ds ! i} \<and>
     A \<union> B \<union> C = {..<length ds} \<and> A \<inter> B = {} \<and> A \<inter> C = {} \<and> B \<inter> C = {} \<and>
     train = rows_at df A \<and> valid = rows_at df B \<and> test = rows_at df C \<and>
     partitions df valid_boundary test_boundary = Inr (train, valid, test) \<and>
     split_data ns g df valid_boundary test_boundary =
       (case set_scalers ns g train of
          (Inl e, f) \<Rightarrow> (Inl e, f)
        | (Inr u, f) \<Rightarrow>
            (Inr (if isl (transform_inputs ns f train) then [transform_inputs ns f train]
                  else if isl (transform_inputs ns f valid)
                  then [transform_inputs ns f train, transform_inputs ns f valid]
                  else [transform_inputs ns f train, transform_inputs ns f valid,
                        transform_inputs ns f test]),
             f))"
proof -
  let ?A = "{i. i < length ds \<and> ds ! i < valid_boundary}"
  let ?B = "{i. i < length ds \<and> valid_boundary \<le> ds ! i \<and> ds ! i < test_boundary}"
  let ?C = "{i. i < length ds \<and> test_boundary \<le> ds ! i}"
  have sets: "?A \<union> ?B \<union> ?C = {..<length ds}" "?A \<inter> ?B = {}" "?A \<inter> ?C = {}" "?B \<inter> ?C = {}"
    using assms(1) by auto
  have p: "partitions df valid_boundary test_boundary =
      Inr (rows_at df ?A, rows_at df ?B, rows_at df ?C)"
    by (simp add: partitions_numeric[OF assms(2)] loc_map_rows_at)
  have s: "split_data ns g df valid_boundary test_boundary =
       (case set_scalers ns g (rows_at df ?A) of
          (Inl e, f) \<Rightarrow> (Inl e, f)
        | (Inr u, f) \<Rightarrow>
            (Inr (if isl (transform_inputs ns f (rows_at df ?A))
                  then [transform_inputs ns f (rows_at df ?A)]
                  else if isl (transform_inputs ns f (rows_at df ?B))
                  then [transform_inputs ns f (rows_at df ?A),
                        transform_inputs ns f (rows_at df ?B)]
                  else [transform_inputs ns f (rows_at df ?A),
                        transform_inputs ns f (rows_at df ?B),
                        transform_inputs ns f (rows_at df ?C)]),
             f))"
    by (simp only: split_data_partitions p generator_three sum.case prod.case)
  show ?thesis
    by (intro exI conjI) (rule refl sets p s)+
qed

theorem split_data_partitions_rows_witness:
  "(7::real) \<le> 8 \<and>
   getitem example_table ''DAY'' = Inr (map Num [5, 6, 7, 8, 9]) \<and>
   partitions example_table 7 8 = Inr (example_train, example_valid, example_test) \<and>
   getitem example_train ''DAY'' = Inr [Num 5, Num 6] \<and>
   getitem example_valid ''DAY'' = Inr [Num 7] \<and>
   getitem example_test ''DAY'' = Inr [Num 8, Num 9] \<and>
   split_data example_num_str init example_table 7 8 =
     (Inr [Inr example_train_transformed, Inr example_valid_transformed,
           Inr example_test_transformed],
      example_formatter)"
proof -
  have b: "(7::real) \<le> 8"
    by simp
  have d: "getitem example_table ''DAY'' = Inr (map Num [5, 6, 7, 8, 9])"
    by (simp add: getitem_def example_table_def)
  have days: "getitem example_train ''DAY'' = Inr [Num 5, Num 6]"
    "getitem example_valid ''DAY'' = Inr [Num 7]"
    "getitem example_test ''DAY'' = Inr [Num 8, Num 9]"
    by (simp_all add: getitem_def example_train_def example_valid_def example_test_def)
  from split_data_partitions_rows[OF b d, of example_num_str init]
  have "\<exists>train valid test. partitions example_table 7 8 = Inr (train, valid, test)"
    by (elim exE conjE, intro exI) assumption
  with b d days example_partitions example_split show ?thesis
    by simp
qed

theorem partitions_overlap_counterexample:
  "partitions example_valid 8 7 = Inr (example_valid, example_no_rows, example_valid) \<and>
   getitem example_valid ''DAY'' = Inr [Num 7]"
  by (simp add: partitions_def example_valid_def example_no_rows_def getitem_def loc_def
      select_def mask_and_def)

subsection \<open>Calibration inside \<open>split_data\<close>\<close>





section \<open>The table given to \<open>transform_inputs\<close>\<close>

lemma transform_categorical_store_refines:
  assumes "df < length h" and "output < length h" and "df \<noteq> output"
    and "transform_categorical_store ns self h df cols output = (h', r)"
  shows "length h' = length h \<and> (\<forall>a < length h. a \<noteq> output \<longrightarrow> h' ! a = h ! a) \<and>
     (case transform_categorical ns self (h ! df) cols (h ! output) of
        Inl e \<Rightarrow> r = Inl e
      | Inr out \<Rightarrow> r = Inr output \<and> h' ! output = out)"
  using assms
proof (induction cols arbitrary: h)
  case Nil
  then show ?case by auto
next
  case (Cons col cols)
  show ?case
  proof (cases "\<exists>vs scalers enc codes. getitem (h ! df) col = Inr vs \<and>
      cat_scalers self = Some scalers \<and> map_of scalers col = Some enc \<and>
      encoder_transform enc (map (py_str ns) vs) = Inr codes")
    case False
    with Cons.prems show ?thesis
      by (auto simp: Let_def split: sum.splits option.splits)
  next
    case True
    then obtain vs scalers enc codes where
      s: "getitem (h ! df) col = Inr vs" "cat_scalers self = Some scalers"
         "map_of scalers col = Some enc"
         "encoder_transform enc (map (py_str ns) vs) = Inr codes"
      by blast
    let ?h = "store_setitem h output col codes"
    from s Cons.prems(4)
    have r: "transform_categorical_store ns self ?h df cols output = (h', r)"
      by (simp add: Let_def)
    have l: "df < length ?h" "output < length ?h"
      using Cons.prems(1,2) by (simp_all add: store_setitem_def)
    note ih = Cons.IH[OF l Cons.prems(3) r]
    have same: "?h ! df = h ! df" "?h ! output = setitem (h ! output) col codes"
      "length ?h = length h" "\<forall>a < length h. a \<noteq> output \<longrightarrow> ?h ! a = h ! a"
      using Cons.prems(1,2,3) by (simp_all add: store_setitem_def)
    from ih s same show ?thesis
      by (simp add: Let_def)
  qed
qed

lemma transform_inputs_store_refines:
  assumes "df < length h" and "transform_inputs_store ns self h df = (h', r)"
  shows "length h' = Suc (length h) \<and> (\<forall>a < length h. h' ! a = h ! a) \<and>
     (case transform_inputs ns self (h ! df) of
        Inl e \<Rightarrow> r = Inl e
      | Inr out \<Rightarrow> r = Inr (length h) \<and> h' ! length h = out)"
proof -
  let ?h1 = "h @ [h ! df]"
  let ?o = "length h"
  have h1: "?h1 ! df = h ! df" "?h1 ! ?o = h ! df" "df < length ?h1" "?o < length ?h1" "df \<noteq> ?o"
    using assms(1) by (simp_all add: nth_append)
  show ?thesis
  proof (cases "\<exists>rs data scaled. real_scalers self = Some rs \<and>
      getitems (h ! df) real_inputs = Inr data \<and>
      scaler_transform rs (length (frame_index (h ! df))) data = Inr scaled")
    case False
    with assms(2) h1(1) show ?thesis
      by (auto simp: transform_inputs_store_def transform_inputs_def copy_def Let_def
          real_inputs_def nth_append split: sum.splits option.splits if_splits)
  next
    case True
    then obtain rs data scaled where
      s: "real_scalers self = Some rs" "getitems (h ! df) real_inputs = Inr data"
         "scaler_transform rs (length (frame_index (h ! df))) data = Inr scaled"
      by blast
    let ?h2 = "store_setitems ?h1 ?o real_inputs scaled"
    have h2: "?h2 ! df = h ! df" "?h2 ! ?o = setitems (h ! df) real_inputs scaled"
      "df < length ?h2" "?o < length ?h2" "length ?h2 = Suc (length h)"
      "\<forall>a < length h. ?h2 ! a = h ! a"
      using assms(1) by (simp_all add: store_setitems_def nth_append)
    from assms(2) s h1(1)
    have r: "transform_categorical_store ns self ?h2 df categorical_inputs ?o = (h', r)"
      by (simp add: transform_inputs_store_def copy_def Let_def real_inputs_def[symmetric]
          categorical_inputs_def[symmetric])
    note c = transform_categorical_store_refines[OF h2(3,4) h1(5) r]
    have t: "transform_inputs ns self (h ! df) =
        transform_categorical ns self (h ! df) categorical_inputs
          (setitems (h ! df) real_inputs scaled)"
      using s by (simp add: transform_inputs_def Let_def real_inputs_def[symmetric]
          categorical_inputs_def[symmetric])
    from c h2 t show ?thesis
      by (auto split: sum.splits)
  qed
qed

lemma column_names_lengths: "column_names df = map fst (column_lengths df)"
  by (simp add: column_names_def column_lengths_def comp_def case_prod_unfold)

lemma update_lengths:
  "map_of al k = Some v \<Longrightarrow> length v' = length v \<Longrightarrow>
     map (\<lambda>(c, vs). (c, length vs)) (AList.update k v' al) =
     map (\<lambda>(c, vs). (c, length vs)) al"
  by (induction al) (auto split: if_splits)

lemma column_lengths_setitem:
  "getitem df c = Inr vs \<Longrightarrow> length vs' = length vs \<Longrightarrow>
     column_lengths (setitem df c vs') = column_lengths df"
  by (simp add: column_lengths_def setitem_def getitem_Inr_iff update_lengths)

lemma column_lengths_setitems:
  "distinct cs \<Longrightarrow> length vss = length cs \<Longrightarrow>
   (\<forall>i < length cs. \<exists>vs. getitem df (cs ! i) = Inr vs \<and> length (vss ! i) = length vs) \<Longrightarrow>
     column_lengths (setitems df cs vss) = column_lengths df"
proof (induction df cs vss rule: setitems.induct)
  case (1 df c cs vs vss)
  from "1.prems"(3)[rule_format, of 0] obtain ws where
    w: "getitem df c = Inr ws" "length vs = length ws"
    by auto
  have "\<forall>i < length cs. \<exists>us. getitem (setitem df c vs) (cs ! i) = Inr us \<and>
      length (vss ! i) = length us"
  proof (intro allI impI)
    fix i assume i: "i < length cs"
    with "1.prems"(1) have "cs ! i \<noteq> c"
      by auto
    with "1.prems"(3)[rule_format, of "Suc i"] i
    show "\<exists>us. getitem (setitem df c vs) (cs ! i) = Inr us \<and> length (vss ! i) = length us"
      by (simp add: getitem_setitem)
  qed
  with "1.IH" "1.prems"(1,2) have "column_lengths (setitems (setitem df c vs) cs vss) =
      column_lengths (setitem df c vs)"
    by simp
  with w show ?case
    by (simp add: column_lengths_setitem)
qed auto

lemma encoder_transform_length:
  "encoder_transform enc ys = Inr codes \<Longrightarrow> length codes = length ys"
  by (auto simp: encoder_transform_def split: if_splits)

lemma transform_inputs_shape:
  assumes "set_scalers ns g train = (Inr (), f)"
    and "transform_inputs ns f df = Inr out"
  shows "frame_index out = frame_index df \<and> column_lengths out = column_lengths df"
proof -
  from calibrated_scalers[OF assms(1)] obtain rs labels where
    rs: "real_scalers f = Some rs" and
    lm: "length (scaler_mean rs) = length real_inputs" and
    ls: "length (scaler_scale rs) = length real_inputs" and
    cs: "cat_scalers f = Some [(''STOCK'', encoder_fit (map (py_str ns) labels))]"
    by blast
  from transform_inputs_Inr[OF rs cs lm ls assms(2)] obtain data cols vs codes where
    d: "getitems df real_inputs = Inr data" and
    c: "check_array (length (frame_index df)) data = Inr cols" and
    v: "getitem df ''STOCK'' = Inr vs" and
    e: "encoder_transform (encoder_fit (map (py_str ns) labels)) (map (py_str ns) vs) = Inr codes" and
    out: "out = setitem (setitems df real_inputs
             (scale_columns (scaler_mean rs) (scaler_scale rs) cols)) ''STOCK'' codes"
    by blast
  let ?scaled = "scale_columns (scaler_mean rs) (scaler_scale rs) cols"
  let ?mid = "setitems df real_inputs ?scaled"
  from getitems_Inr[OF d] check_array_Inr[OF c]
  have len: "length cols = length real_inputs"
    and get: "\<forall>i < length real_inputs. getitem df (real_inputs ! i) = Inr (map Num (cols ! i))"
    by auto
  from scale_columns_nth[of "scaler_mean rs" cols "scaler_scale rs"] lm ls len
  have sl: "length ?scaled = length real_inputs"
    and sn: "\<forall>i < length real_inputs.
        ?scaled ! i = map (\<lambda>x. Num ((x - scaler_mean rs ! i) / scaler_scale rs ! i)) (cols ! i)"
    by auto
  have dist: "distinct real_inputs"
    by (simp add: real_inputs_list)
  have "\<forall>i < length real_inputs. \<exists>ws. getitem df (real_inputs ! i) = Inr ws \<and>
      length (?scaled ! i) = length ws"
    using get sn by simp
  from column_lengths_setitems[OF dist sl this]
  have mid: "column_lengths ?mid = column_lengths df" .
  have "''STOCK'' \<notin> set real_inputs"
    by (simp add: real_inputs_list)
  then have "getitem ?mid ''STOCK'' = Inr vs"
    using v by (simp add: getitem_setitems_other)
  from column_lengths_setitem[OF this, of codes] encoder_transform_length[OF e] mid
  have "column_lengths out = column_lengths df"
    by (simp add: out)
  moreover have "frame_index out = frame_index df"
    by (simp add: out frame_index_setitem frame_index_setitems)
  ultimately show ?thesis by simp
qed

text \<open>
  C8. \<open>transform_inputs\<close> leaves every table that was in the store as it was, the
  one it is given among them, whether it returns or raises. When a calibrated
  formatter returns, the result is a new table, with the row labels of the input
  and the same columns in the same order, each with as many rows as in the input.
\<close>

theorem transform_inputs_copies:
  assumes "set_scalers ns g train = (Inr (), f)"
    and "df < length h"
  shows "(\<forall>a < length h. fst (transform_inputs_store ns f h df) ! a = h ! a) \<and>
     (\<forall>h' out. transform_inputs_store ns f h df = (h', Inr out) \<longrightarrow>
        out = length h \<and> h' ! df = h ! df \<and>
        transform_inputs ns f (h ! df) = Inr (h' ! out) \<and>
        frame_index (h' ! out) = frame_index (h ! df) \<and>
        column_names (h' ! out) = column_names (h ! df) \<and>
        column_lengths (h' ! out) = column_lengths (h ! df))"
proof -
  have kept: "\<forall>a < length h. fst (transform_inputs_store ns f h df) ! a = h ! a"
    using transform_inputs_store_refines[OF assms(2), of ns f
        "fst (transform_inputs_store ns f h df)" "snd (transform_inputs_store ns f h df)"]
    by simp
  have new: "out = length h \<and> h' ! df = h ! df \<and>
        transform_inputs ns f (h ! df) = Inr (h' ! out) \<and>
        frame_index (h' ! out) = frame_index (h ! df) \<and>
        column_names (h' ! out) = column_names (h ! df) \<and>
        column_lengths (h' ! out) = column_lengths (h ! df)"
    if "transform_inputs_store ns f h df = (h', Inr out)" for h' out
  proof -
    from transform_inputs_store_refines[OF assms(2) that] assms(2)
    have r: "out = length h" "h' ! df = h ! df" "transform_inputs ns f (h ! df) = Inr (h' ! out)"
      by (auto split: sum.splits)
    from transform_inputs_shape[OF assms(1) r(3)] r show ?thesis
      by (simp add: column_names_lengths)
  qed
  from kept new show ?thesis
    by blast
qed

theorem transform_inputs_copies_witness:
  "set_scalers example_num_str init example_train = (Inr (), example_formatter) \<and>
   (0::nat) < length [example_train] \<and>
   transform_inputs_store example_num_str example_formatter [example_train] 0 =
     ([example_train, example_train_transformed], Inr 1)"
proof -
  have l: "(0::nat) < length [example_train]"
    by simp
  obtain h' r where
    s: "transform_inputs_store example_num_str example_formatter [example_train] 0 = (h', r)"
    by (cases "transform_inputs_store example_num_str example_formatter [example_train] 0")
  from transform_inputs_store_refines[OF l s] example_transform_train
  have r: "r = Inr 1" "length h' = 2" "h' ! 0 = example_train" "h' ! 1 = example_train_transformed"
    by simp_all
  then have "h' = [example_train, example_train_transformed]"
    by (auto simp: nth_Cons length_Suc_conv numeral_2_eq_2 intro!: nth_equalityI split: nat.splits)
  with s r(1) transform_inputs_copies[OF example_calibration l] example_calibration l
  show ?thesis
    by simp
qed

end
